theory Spec2Isabelle
  imports Complex_Main
begin

unbundle bit_operations_syntax

chapter \<open>The Freestyle parameter editor: a shallow embedding\<close>

text \<open>
  The embedding follows \<^verbatim>\<open>modules/freestyle/utils.py\<close> and
  \<^verbatim>\<open>modules/parameter_editor.py\<close>. Python floats are read as real numbers, Python
  strings as \<^typ>\<open>string\<close>, and every exception of the source is a value of the type
  \<open>error\<close>: a function that can raise returns \<open>error + 'a\<close>, with \<open>Inl\<close> the exception.
\<close>

section \<open>Exceptions\<close>

datatype error =
    ValueError string
  | ZeroDivisionError
  | RuntimeError
  | StopIteration
  | IndexError
  | AttributeError
  | AssertionError
  | UnboundLocalError string

section \<open>utils.py: scalar helpers\<close>

text \<open>
  \<^verbatim>\<open>return (lower if x <= lower else higher if x >= higher else x)\<close>
\<close>

definition bound :: "real \<Rightarrow> real \<Rightarrow> real \<Rightarrow> real" where
  "bound lower x higher =
     (if x \<le> lower then lower else if x \<ge> higher then higher else x)"

text \<open>
  The expression the docstring of \<^verbatim>\<open>bound\<close> calls equivalent:
  \<^verbatim>\<open>min(max(x, lower), higher)\<close>.
\<close>

definition bound_docstring :: "real \<Rightarrow> real \<Rightarrow> real \<Rightarrow> real" where
  "bound_docstring lower x higher = min (max x lower) higher"

section \<open>parameter_editor.py: the blending algebra\<close>

text \<open>
  \<^verbatim>\<open>ScalarBlendModifier\<close> keeps the blend mode and the influence factor given to its
  constructor. The constructor stores both and checks neither.
\<close>

record ScalarBlendModifier =
  sbm_blend :: string
  sbm_influence :: real

definition ScalarBlendModifier_init :: "string \<Rightarrow> real \<Rightarrow> error + ScalarBlendModifier" where
  "ScalarBlendModifier_init blend_mode influence =
     Inr \<lparr>sbm_blend = blend_mode, sbm_influence = influence\<rparr>"

text \<open>
  \<^verbatim>\<open>ScalarBlendModifier.blend(self, v1, v2)\<close>: an \<^verbatim>\<open>if/elif\<close> chain over the mode,
  whose last branch raises \<^verbatim>\<open>ValueError\<close>. In the DIVIDE branch the conditional
  expression guards the whole sum, so no division by zero is evaluated.
\<close>

definition blend :: "'a ScalarBlendModifier_scheme \<Rightarrow> real \<Rightarrow> real \<Rightarrow> error + real" where
  "blend self v1 v2 =
     (let fac = sbm_influence self;
          facm = 1 - fac
      in if sbm_blend self = ''MIX'' then Inr (facm * v1 + fac * v2)
         else if sbm_blend self = ''ADD'' then Inr (v1 + fac * v2)
         else if sbm_blend self = ''MULTIPLY'' then Inr (v1 * (facm + fac * v2))
         else if sbm_blend self = ''SUBTRACT'' then Inr (v1 - fac * v2)
         else if sbm_blend self = ''DIVIDE'' then
           Inr (if v2 \<noteq> 0 then facm * v1 + fac * v1 / v2 else v1)
         else if sbm_blend self = ''DIFFERENCE'' then Inr (facm * v1 + fac * \<bar>v1 - v2\<bar>)
         else if sbm_blend self = ''MININUM'' then Inr (min (fac * v2) v1)
         else if sbm_blend self = ''MAXIMUM'' then Inr (max (fac * v2) v1)
         else Inl (ValueError (''unknown curve blend type: '' @ sbm_blend self)))"

section \<open>Vectors of the mathutils library, as the source uses them\<close>

text \<open>
  Modelled from the spec: the vector type of the library \<^verbatim>\<open>mathutils\<close> is not under
  src/. Vectors are tuples of reals, with the operations the source calls: difference,
  \<^verbatim>\<open>length\<close>, \<^verbatim>\<open>normalized()\<close> (the zero vector stays the zero vector), unary
  minus, \<^verbatim>\<open>dot\<close>, the component \<^verbatim>\<open>z\<close>, and the scalar \<^verbatim>\<open>cross\<close> of two 2D
  vectors.
\<close>

type_synonym vec2 = "real \<times> real"
type_synonym vec3 = "real \<times> real \<times> real"

definition sub_v2 :: "vec2 \<Rightarrow> vec2 \<Rightarrow> vec2" where
  "sub_v2 p q = (fst p - fst q, snd p - snd q)"

definition length_v2 :: "vec2 \<Rightarrow> real" where
  "length_v2 p = sqrt (fst p * fst p + snd p * snd p)"

definition cross_v2 :: "vec2 \<Rightarrow> vec2 \<Rightarrow> real" where
  "cross_v2 p q = fst p * snd q - snd p * fst q"

definition length_v3 :: "vec3 \<Rightarrow> real" where
  "length_v3 v = (case v of (x, y, z) \<Rightarrow> sqrt (x * x + y * y + z * z))"

definition normalized_v3 :: "vec3 \<Rightarrow> vec3" where
  "normalized_v3 v =
     (case v of (x, y, z) \<Rightarrow>
        let l = length_v3 v in if l = 0 then (0, 0, 0) else (x / l, y / l, z / l))"

definition neg_v3 :: "vec3 \<Rightarrow> vec3" where
  "neg_v3 v = (case v of (x, y, z) \<Rightarrow> (- x, - y, - z))"

definition dot_v3 :: "vec3 \<Rightarrow> vec3 \<Rightarrow> real" where
  "dot_v3 v w = (case v of (x, y, z) \<Rightarrow> case w of (a, b, c) \<Rightarrow> x * a + y * b + z * c)"

definition z_v3 :: "vec3 \<Rightarrow> real" where
  "z_v3 v = (case v of (x, y, z) \<Rightarrow> z)"

section \<open>The view map, as the source reads it\<close>

text \<open>
  Modelled from the spec: the types of the Freestyle library (\<^verbatim>\<open>Nature\<close>,
  \<^verbatim>\<open>FEdge\<close>, \<^verbatim>\<open>StrokeVertex\<close>, \<^verbatim>\<open>ViewEdge\<close>, the scene) are not under src/. An
  \<open>FEdge\<close> carries the attributes the source reads from it; \<open>nature\<close> is the integer
  bit set that the source tests with \<^verbatim>\<open>nature & Nature.BORDER\<close>. The values of the
  flags of the class \<^verbatim>\<open>Nature\<close> are parameters.
\<close>

record Nature =
  SILHOUETTE :: nat
  BORDER :: nat

record FEdge =
  nature :: nat
  is_smooth :: bool
  normal_left :: vec3
  face_mark :: bool
  face_mark_left :: bool
  face_mark_right :: bool
  material_index :: int
  material_index_left :: int

text \<open>
  A stroke vertex: its 2D point, its 3D point in camera coordinates, the pair
  \<^verbatim>\<open>attribute.thickness\<close>, the scalar \<^verbatim>\<open>attribute.alpha\<close>, and the two vertices
  of the view map it lies between.
  Vertices of the view map are named by numbers, and \<^verbatim>\<open>a.get_fedge(b)\<close> is a lookup
  \<open>get_fedge a b\<close> that may answer \<^verbatim>\<open>None\<close>.
\<close>

record StrokeVertex =
  point :: vec2
  point_3d :: vec3
  thickness :: "real \<times> real"
  alpha :: real
  first_svertex :: nat
  second_svertex :: nat

type_synonym fedge_lookup = "nat \<Rightarrow> nat \<Rightarrow> FEdge option"

record Scene =
  camera_type :: string
  model_view :: "vec3 \<Rightarrow> vec3"

section \<open>parameter_editor.py: thickness\<close>

record ThicknessModifierMixIn =
  persp_camera :: bool

definition ThicknessModifierMixIn_init :: "Scene \<Rightarrow> error + ThicknessModifierMixIn" where
  "ThicknessModifierMixIn_init scene = Inr \<lparr>persp_camera = (camera_type scene = ''PERSP'')\<rparr>"

text \<open>
  \<^verbatim>\<open>set_thickness(self, sv, outer, inner)\<close> ends with the assignment
  \<^verbatim>\<open>sv.attribute.thickness = (outer, inner)\<close>: the vertex is returned updated. Reading
  \<^verbatim>\<open>fe.nature\<close> when the lookup answered \<^verbatim>\<open>None\<close> is an \<^verbatim>\<open>AttributeError\<close>.
\<close>

definition set_thickness ::
  "Nature \<Rightarrow> fedge_lookup \<Rightarrow> 'a ThicknessModifierMixIn_scheme \<Rightarrow> StrokeVertex \<Rightarrow> real \<Rightarrow> real
     \<Rightarrow> error + StrokeVertex" where
  "set_thickness N get_fedge self sv outer inner =
     (case get_fedge (first_svertex sv) (second_svertex sv) of
        None \<Rightarrow> Inl AttributeError
      | Some fe \<Rightarrow>
          Inr (sv\<lparr>thickness :=
            (if nature fe AND BORDER N \<noteq> 0 then
               (let dir = (if persp_camera self
                           then dot_v3 (neg_v3 (normalized_v3 (point_3d sv))) (normal_left fe)
                           else z_v3 (normal_left fe))
                in if dir < 0 then (inner, outer) else (outer, inner))
             else if nature fe AND SILHOUETTE N \<noteq> 0 then
               (if is_smooth fe then (inner, outer) else (outer, inner))
             else ((outer + inner) / 2, (outer + inner) / 2))\<rparr>))"

text \<open>
  The camera-facing test in the words of the specification: with a perspective camera the
  dot product of the normalised inverse view vector and the left normal, with an
  orthographic camera the z component of the left normal.
\<close>

definition camera_facing :: "bool \<Rightarrow> vec3 \<Rightarrow> vec3 \<Rightarrow> real" where
  "camera_facing persp view n_left =
     (if persp then dot_v3 (normalized_v3 (neg_v3 view)) n_left else z_v3 n_left)"

record ThicknessBlenderMixIn = ThicknessModifierMixIn +
  position :: string
  ratio :: real

definition ThicknessBlenderMixIn_init :: "Scene \<Rightarrow> string \<Rightarrow> real \<Rightarrow> error + ThicknessBlenderMixIn" where
  "ThicknessBlenderMixIn_init scene pos r =
     (case ThicknessModifierMixIn_init scene of
        Inl e \<Rightarrow> Inl e
      | Inr base \<Rightarrow> Inr \<lparr>persp_camera = persp_camera base, position = pos, ratio = r\<rparr>)"

text \<open>
  \<^verbatim>\<open>blend_thickness(self, outer, inner, v)\<close>. Every class that uses it inherits
  \<^verbatim>\<open>blend\<close> from \<^verbatim>\<open>ScalarBlendModifier\<close> as well: \<open>self\<close> is given once as the
  mix-in and once as the scalar blend modifier. The blend comes first, so its error wins.
\<close>

definition blend_thickness ::
  "'a ThicknessBlenderMixIn_scheme \<Rightarrow> 'b ScalarBlendModifier_scheme \<Rightarrow> real \<Rightarrow> real \<Rightarrow> real
     \<Rightarrow> error + real \<times> real" where
  "blend_thickness self self_blend outer inner v =
     (case blend self_blend (outer + inner) v of
        Inl e \<Rightarrow> Inl e
      | Inr v' \<Rightarrow>
          if position self = ''CENTER'' then
            (let outer' = v' * 0.5; inner' = v' - outer' in Inr (outer', inner'))
          else if position self = ''INSIDE'' then Inr (0, v')
          else if position self = ''OUTSIDE'' then Inr (v', 0)
          else if position self = ''RELATIVE'' then
            (let outer' = v' * ratio self; inner' = v' - outer' in Inr (outer', inner'))
          else Inl (ValueError (''unknown thickness position: '' @ position self)))"

section \<open>utils.py: iterating over a stroke\<close>

text \<open>
  \<^verbatim>\<open>pairwise(iterable)\<close> zips the iterable with itself advanced by one element.
\<close>

definition pairwise_it :: "'a list \<Rightarrow> ('a \<times> 'a) list" where
  "pairwise_it iterable = zip iterable (tl iterable)"

text \<open>
  \<^verbatim>\<open>iter_distance_from_camera(stroke, range_min, range_max)\<close> yields one value per vertex;
  the list of the yielded values stands for the generator. The division is evaluated only
  when \<^verbatim>\<open>range_min < distance < range_max\<close>, where \<open>normfac\<close> is positive.
\<close>

definition iter_distance_from_camera :: "StrokeVertex list \<Rightarrow> real \<Rightarrow> real \<Rightarrow> real list" where
  "iter_distance_from_camera stroke range_min range_max =
     (let normfac = range_max - range_min
      in map (\<lambda>svert.
                let distance = length_v3 (point_3d svert)
                in if range_min < distance \<and> distance < range_max
                   then (distance - range_min) / normfac
                   else (if range_min > distance then 0 else 1))
             stroke)"

section \<open>Iterators of the Freestyle library\<close>

text \<open>
  Modelled from the spec: the iterator classes of the Freestyle library
  (\<^verbatim>\<open>Interface0DIterator\<close>, \<^verbatim>\<open>StrokeVertexIterator\<close>) are not under src/. An iterator
  is a sequence with a position; it is at its begin at position 0 and at its end once the
  position is past the last element. \<^verbatim>\<open>it.object\<close> is the element at the position
  (an error at the end), \<^verbatim>\<open>it.decrement()\<close> looks one vertex back and raises
  \<^verbatim>\<open>RuntimeError\<close> at the begin, and \<^verbatim>\<open>next(it)\<close> looks one vertex forward and raises
  \<^verbatim>\<open>StopIteration\<close> when no vertex follows. \<^verbatim>\<open>incremented()\<close> and
  \<^verbatim>\<open>decremented()\<close> are moved copies.
\<close>

record 'a Iterator0D =
  it_items :: "'a list"
  it_index :: nat

definition is_begin :: "'a Iterator0D \<Rightarrow> bool" where
  "is_begin it = (it_index it = 0)"

definition is_end :: "'a Iterator0D \<Rightarrow> bool" where
  "is_end it = (length (it_items it) \<le> it_index it)"

definition it_object :: "'a Iterator0D \<Rightarrow> error + 'a" where
  "it_object it =
     (if it_index it < length (it_items it) then Inr (it_items it ! it_index it)
      else Inl RuntimeError)"

definition incremented :: "'a Iterator0D \<Rightarrow> 'a Iterator0D" where
  "incremented it = it\<lparr>it_index := it_index it + 1\<rparr>"

definition decremented :: "'a Iterator0D \<Rightarrow> 'a Iterator0D" where
  "decremented it = it\<lparr>it_index := it_index it - 1\<rparr>"

definition decrement :: "'a Iterator0D \<Rightarrow> error + 'a Iterator0D" where
  "decrement it = (if is_begin it then Inl RuntimeError else Inr (it\<lparr>it_index := it_index it - 1\<rparr>))"

definition next_it :: "'a Iterator0D \<Rightarrow> error + 'a \<times> 'a Iterator0D" where
  "next_it it =
     (if it_index it + 1 < length (it_items it)
      then Inr (it_items it ! (it_index it + 1), it\<lparr>it_index := it_index it + 1\<rparr>)
      else Inl StopIteration)"

section \<open>utils.py: curvature\<close>

text \<open>Python's division of floats raises on a zero divisor.\<close>

definition py_div :: "real \<Rightarrow> real \<Rightarrow> error + real" where
  "py_div a b = (if b = 0 then Inl ZeroDivisionError else Inr (a / b))"

text \<open>
  \<^verbatim>\<open>stroke_curvature(it)\<close>. The \<^verbatim>\<open>try\<close> block holds the area, the division and the
  call of \<^verbatim>\<open>bound\<close>; its handler catches \<^verbatim>\<open>ZeroDivisionError\<close> only.
\<close>

definition stroke_curvature :: "StrokeVertex Iterator0D \<Rightarrow> error + real" where
  "stroke_curvature it =
     (if is_end it \<or> is_begin it then Inr 0
      else
        (case it_object (incremented it) of
           Inl e \<Rightarrow> Inl e
         | Inr sv_next \<Rightarrow>
        (case it_object (decremented it) of
           Inl e \<Rightarrow> Inl e
         | Inr sv_prev \<Rightarrow>
        (case it_object it of
           Inl e \<Rightarrow> Inl e
         | Inr sv \<Rightarrow>
             (let next' = point sv_next;
                  prev = point sv_prev;
                  current = point sv;
                  ab = sub_v2 current prev;
                  bc = sub_v2 next' current;
                  ac = sub_v2 prev next';
                  a = length_v2 ab;
                  b = length_v2 bc;
                  c = length_v2 ac;
                  area = 0.5 * cross_v2 ab ac
              in (case py_div (4 * area) (a * b * c) of
                    Inr K \<Rightarrow> Inr (bound 0 K 1)
                  | Inl ZeroDivisionError \<Rightarrow> Inr 0
                  | Inl e \<Rightarrow> Inl e))))))"

text \<open>Three points of the plane on one line, in coordinates.\<close>

definition colinear_v2 :: "vec2 \<Rightarrow> vec2 \<Rightarrow> vec2 \<Rightarrow> bool" where
  "colinear_v2 p q r =
     ((fst q - fst p) * (snd r - snd p) = (snd q - snd p) * (fst r - fst p))"

section \<open>parameter_editor.py: the dash pattern controller\<close>

record SplitPatternController =
  sampling :: real
  start_pos :: "real list"
  stop_pos :: "real list"
  start_len :: real
  start_idx :: nat
  stop_len :: real
  stop_idx :: nat

text \<open>\<^verbatim>\<open>init(self)\<close> resets the four counters.\<close>

definition init :: "SplitPatternController \<Rightarrow> SplitPatternController" where
  "init self = self\<lparr>start_len := 0, start_idx := 0, stop_len := sampling self, stop_idx := 0\<rparr>"

text \<open>
  \<^verbatim>\<open>__init__(self, pattern, sampling)\<close>: both position lists are built with
  \<^verbatim>\<open>pairwise(pattern)\<close>; the values \<^verbatim>\<open>k\<close> and \<^verbatim>\<open>n\<close> it computes first are not used.
\<close>

definition SplitPatternController_init :: "real list \<Rightarrow> real \<Rightarrow> SplitPatternController" where
  "SplitPatternController_init pattern sampling' =
     init \<lparr>sampling = sampling',
           start_pos = map (\<lambda>(prev, current). prev + current) (pairwise_it pattern),
           stop_pos = map (\<lambda>(prev, _). prev) (pairwise_it pattern),
           start_len = 0, start_idx = 0, stop_len = 0, stop_idx = 0\<rparr>"

text \<open>
  \<^verbatim>\<open>start(self)\<close> and \<^verbatim>\<open>stop(self)\<close> return a truth value and change the controller.
  Indexing an empty position list raises \<^verbatim>\<open>IndexError\<close>.
\<close>

definition start :: "SplitPatternController \<Rightarrow> error + bool \<times> SplitPatternController" where
  "start self =
     (let self1 = self\<lparr>start_len := start_len self + sampling self\<rparr>
      in if start_idx self1 < length (start_pos self1) then
           (if \<bar>start_len self1 - start_pos self1 ! start_idx self1\<bar> < sampling self1 / 2 then
              Inr (True, self1\<lparr>start_len := 0,
                                start_idx := (start_idx self1 + 1) mod length (start_pos self1)\<rparr>)
            else Inr (False, self1))
         else Inl IndexError)"

definition stop :: "SplitPatternController \<Rightarrow> error + bool \<times> SplitPatternController" where
  "stop self =
     (let self0 = (if start_len self > 0 then init self else self);
          self1 = self0\<lparr>stop_len := stop_len self0 + sampling self0\<rparr>
      in if stop_idx self1 < length (stop_pos self1) then
           (if \<bar>stop_len self1 - stop_pos self1 ! stop_idx self1\<bar> < sampling self1 / 2 then
              Inr (True, self1\<lparr>stop_len := sampling self1,
                                stop_idx := (stop_idx self1 + 1) mod length (stop_pos self1)\<rparr>)
            else Inr (False, self1))
         else Inl IndexError)"

text \<open>
  \<open>start_calls n\<close> is \<open>n\<close> successive calls of \<^verbatim>\<open>start()\<close> on one controller: the
  answers in the order of the calls, and the controller they leave.
\<close>

fun start_calls :: "nat \<Rightarrow> SplitPatternController \<Rightarrow> error + bool list \<times> SplitPatternController" where
  "start_calls 0 self = Inr ([], self)"
| "start_calls (Suc n) self =
     (case start self of
        Inl e \<Rightarrow> Inl e
      | Inr (r, self') \<Rightarrow>
          (case start_calls n self' of
             Inl e \<Rightarrow> Inl e
           | Inr (rs, self'') \<Rightarrow> Inr (r # rs, self'')))"

section \<open>parameter_editor.py: predicates\<close>

text \<open>
  \<^verbatim>\<open>MaterialBoundaryUP0D.__call__(self, it)\<close>. The \<^verbatim>\<open>try\<close> block steps one vertex
  back and two forward; its handler catches \<^verbatim>\<open>RuntimeError\<close> and
  \<^verbatim>\<open>StopIteration\<close> and answers \<^verbatim>\<open>False\<close>. The iterator is over vertices of
  the view map. The position the iterator is left at is not part of the answer.
\<close>

definition neighbours :: "'a Iterator0D \<Rightarrow> error + 'a \<times> 'a \<times> 'a" where
  "neighbours it =
     (case decrement it of
        Inl e \<Rightarrow> Inl e
      | Inr it1 \<Rightarrow>
     (case it_object it1 of
        Inl e \<Rightarrow> Inl e
      | Inr prev \<Rightarrow>
     (case next_it it1 of
        Inl e \<Rightarrow> Inl e
      | Inr (svert, it2) \<Rightarrow>
     (case next_it it2 of
        Inl e \<Rightarrow> Inl e
      | Inr (succ, it3) \<Rightarrow> Inr (prev, svert, succ)))))"

definition MaterialBoundaryUP0D_call :: "fedge_lookup \<Rightarrow> nat Iterator0D \<Rightarrow> error + bool" where
  "MaterialBoundaryUP0D_call get_fedge it =
     (case neighbours it of
        Inl RuntimeError \<Rightarrow> Inr False
      | Inl StopIteration \<Rightarrow> Inr False
      | Inl e \<Rightarrow> Inl e
      | Inr (prev, svert, succ) \<Rightarrow>
          (case get_fedge svert prev of
             None \<Rightarrow> Inl AttributeError
           | Some fe \<Rightarrow>
               (let idx1 = (if is_smooth fe then material_index fe else material_index_left fe)
                in (case get_fedge svert succ of
                      None \<Rightarrow> Inl AttributeError
                    | Some fe' \<Rightarrow>
                        (let idx2 = (if is_smooth fe' then material_index fe'
                                     else material_index_left fe')
                         in Inr (idx1 \<noteq> idx2))))))"

text \<open>
  The material index of a segment, and a chain of vertices \<open>0, 1, ..., n\<close> whose
  \<open>j\<close>-th segment joins the vertices \<open>j\<close> and \<open>j + 1\<close>.
\<close>

definition segment_material :: "FEdge \<Rightarrow> int" where
  "segment_material fe = (if is_smooth fe then material_index fe else material_index_left fe)"

definition chain_get_fedge :: "FEdge list \<Rightarrow> fedge_lookup" where
  "chain_get_fedge segs a b =
     (if b = a + 1 \<and> a < length segs then Some (segs ! a)
      else if a = b + 1 \<and> b < length segs then Some (segs ! b)
      else None)"

definition chain_iterator :: "FEdge list \<Rightarrow> nat \<Rightarrow> nat Iterator0D" where
  "chain_iterator segs i = \<lparr>it_items = [0..<length segs + 1], it_index = i\<rparr>"

text \<open>
  A \<^verbatim>\<open>ViewEdge\<close> is read through \<^verbatim>\<open>first_fedge\<close> and the links
  \<^verbatim>\<open>fe.next_fedge\<close>: it is the list of its fedges in that order, the empty list where
  \<^verbatim>\<open>first_fedge\<close> is \<^verbatim>\<open>None\<close>.
\<close>

record ViewEdge =
  first_fedge :: "FEdge list"

text \<open>
  The \<^verbatim>\<open>while fe is not None\<close> loop of \<^verbatim>\<open>FaceMarkOneUP1D.__call__\<close>, and the
  predicate: it binds \<^verbatim>\<open>fe = inter.first_fedge\<close> and runs the loop (the argument
  \<^verbatim>\<open>inter\<close> is \<open>viewedge\<close> here).
\<close>

fun FaceMarkOne_loop :: "Nature \<Rightarrow> FEdge list \<Rightarrow> bool" where
  "FaceMarkOne_loop N [] = False"
| "FaceMarkOne_loop N (fe # next_fedge) =
     (if is_smooth fe then
        (if face_mark fe then True else FaceMarkOne_loop N next_fedge)
      else if nature fe AND BORDER N \<noteq> 0 then
        (if face_mark_left fe then True else FaceMarkOne_loop N next_fedge)
      else
        (if face_mark_right fe \<or> face_mark_left fe then True
         else FaceMarkOne_loop N next_fedge))"

definition FaceMarkOneUP1D_call :: "Nature \<Rightarrow> ViewEdge \<Rightarrow> error + bool" where
  "FaceMarkOneUP1D_call N viewedge = Inr (FaceMarkOne_loop N (first_fedge viewedge))"

text \<open>
  The loop of \<^verbatim>\<open>FaceMarkBothUP1D.__call__\<close> is the same with \<^verbatim>\<open>and\<close> in its last
  branch. The body of that method starts with the loop test: \<^verbatim>\<open>fe\<close> is a local name
  (the loop assigns it) that nothing has bound when the test reads it, which is an
  \<^verbatim>\<open>UnboundLocalError\<close>. The local is \<open>None\<close> while unbound.
\<close>

fun FaceMarkBoth_loop :: "Nature \<Rightarrow> FEdge list \<Rightarrow> bool" where
  "FaceMarkBoth_loop N [] = False"
| "FaceMarkBoth_loop N (fe # next_fedge) =
     (if is_smooth fe then
        (if face_mark fe then True else FaceMarkBoth_loop N next_fedge)
      else if nature fe AND BORDER N \<noteq> 0 then
        (if face_mark_left fe then True else FaceMarkBoth_loop N next_fedge)
      else
        (if face_mark_right fe \<and> face_mark_left fe then True
         else FaceMarkBoth_loop N next_fedge))"

definition FaceMarkBothUP1D_call :: "Nature \<Rightarrow> ViewEdge \<Rightarrow> error + bool" where
  "FaceMarkBothUP1D_call N viewedge =
     (let fe = (None :: FEdge list option)
      in (case fe of
            None \<Rightarrow> Inl (UnboundLocalError ''fe'')
          | Some fe' \<Rightarrow> Inr (FaceMarkBoth_loop N fe')))"

text \<open>The both-sides rule for one fedge, in the words of the specification.\<close>

definition marked_both :: "Nature \<Rightarrow> FEdge \<Rightarrow> bool" where
  "marked_both N fe =
     (if is_smooth fe then face_mark fe
      else if nature fe AND BORDER N \<noteq> 0 then face_mark_left fe
      else face_mark_left fe \<and> face_mark_right fe)"

section \<open>parameter_editor.py: constructors and shading of modifiers\<close>

text \<open>
  \<^verbatim>\<open>CurveMappingModifier\<close> extends \<^verbatim>\<open>ScalarBlendModifier\<close>. Its constructor
  asserts the mapping name. The curve is given by its evaluation
  \<^verbatim>\<open>evaluateCurveMappingF(curve, 0, t)\<close>, a function of \<open>t\<close>.
\<close>

record CurveMappingModifier = ScalarBlendModifier +
  cmm_mapping :: string
  cmm_invert :: bool
  cmm_curve :: "real \<Rightarrow> real"

definition CurveMappingModifier_init ::
  "string \<Rightarrow> real \<Rightarrow> string \<Rightarrow> bool \<Rightarrow> (real \<Rightarrow> real) \<Rightarrow> error + CurveMappingModifier" where
  "CurveMappingModifier_init blend_mode influence mapping invert curve =
     (case ScalarBlendModifier_init blend_mode influence of
        Inl e \<Rightarrow> Inl e
      | Inr base \<Rightarrow>
          if mapping \<in> {''LINEAR'', ''CURVE''} then
            Inr \<lparr>sbm_blend = sbm_blend base, sbm_influence = sbm_influence base,
                 cmm_mapping = mapping, cmm_invert = invert, cmm_curve = curve\<rparr>
          else Inl AssertionError)"

definition evaluate :: "'a CurveMappingModifier_scheme \<Rightarrow> real \<Rightarrow> real" where
  "evaluate self t =
     (if cmm_mapping self = ''LINEAR'' then (if cmm_invert self then 1 - t else t)
      else cmm_curve self t)"

text \<open>
  \<^verbatim>\<open>AlphaDistanceFromCameraShader\<close>: the constructor stores the range, and
  \<^verbatim>\<open>shade\<close> blends the mapped distance into the alpha of every vertex, in order.
\<close>

record AlphaDistanceFromCameraShader = CurveMappingModifier +
  adc_range_min :: real
  adc_range_max :: real

definition AlphaDistanceFromCameraShader_init ::
  "string \<Rightarrow> real \<Rightarrow> string \<Rightarrow> bool \<Rightarrow> (real \<Rightarrow> real) \<Rightarrow> real \<Rightarrow> real
     \<Rightarrow> error + AlphaDistanceFromCameraShader" where
  "AlphaDistanceFromCameraShader_init blend_mode influence mapping invert curve rmin rmax =
     (case CurveMappingModifier_init blend_mode influence mapping invert curve of
        Inl e \<Rightarrow> Inl e
      | Inr base \<Rightarrow>
          Inr \<lparr>sbm_blend = sbm_blend base, sbm_influence = sbm_influence base,
               cmm_mapping = cmm_mapping base, cmm_invert = cmm_invert base,
               cmm_curve = cmm_curve base, adc_range_min = rmin, adc_range_max = rmax\<rparr>)"

fun shade_alpha :: "'a CurveMappingModifier_scheme \<Rightarrow> (StrokeVertex \<times> real) list
    \<Rightarrow> error + StrokeVertex list" where
  "shade_alpha self [] = Inr []"
| "shade_alpha self ((svert, t) # rest) =
     (let a = alpha svert;
          b = evaluate self t
      in (case blend self a b of
            Inl e \<Rightarrow> Inl e
          | Inr a' \<Rightarrow>
              (case shade_alpha self rest of
                 Inl e \<Rightarrow> Inl e
               | Inr rest' \<Rightarrow> Inr (svert\<lparr>alpha := a'\<rparr> # rest'))))"

definition AlphaDistanceFromCameraShader_shade ::
  "AlphaDistanceFromCameraShader \<Rightarrow> StrokeVertex list \<Rightarrow> error + StrokeVertex list" where
  "AlphaDistanceFromCameraShader_shade self stroke =
     shade_alpha self
       (zip stroke (iter_distance_from_camera stroke (adc_range_min self) (adc_range_max self)))"

text \<open>
  The modifiers that measure the distance from an object take the object, or
  \<^verbatim>\<open>None\<close>; the constructor refuses \<^verbatim>\<open>None\<close> and keeps the location of the object
  in camera coordinates. The inverted world matrix of the camera is the map
  \<open>model_view\<close> of the scene.
\<close>

record Object3D =
  location :: vec3

record 'r ColorRampModifier =
  crm_blend :: string
  crm_influence :: real
  crm_ramp :: 'r

record 'r ColorDistanceFromObjectShader = "'r ColorRampModifier" +
  cdo_range_min :: real
  cdo_range_max :: real
  cdo_loc :: vec3

definition ColorDistanceFromObjectShader_init ::
  "Scene \<Rightarrow> string \<Rightarrow> real \<Rightarrow> 'r \<Rightarrow> Object3D option \<Rightarrow> real \<Rightarrow> real
     \<Rightarrow> error + 'r ColorDistanceFromObjectShader" where
  "ColorDistanceFromObjectShader_init scene blend_mode influence ramp target rmin rmax =
     (case target of
        None \<Rightarrow> Inl (ValueError ''ColorDistanceFromObjectShader: target can't be None '')
      | Some ob \<Rightarrow>
          Inr \<lparr>crm_blend = blend_mode, crm_influence = influence, crm_ramp = ramp,
               cdo_range_min = rmin, cdo_range_max = rmax,
               cdo_loc = model_view scene (location ob)\<rparr>)"

record AlphaDistanceFromObjectShader = CurveMappingModifier +
  ado_range_min :: real
  ado_range_max :: real
  ado_loc :: vec3

definition AlphaDistanceFromObjectShader_init ::
  "Scene \<Rightarrow> string \<Rightarrow> real \<Rightarrow> string \<Rightarrow> bool \<Rightarrow> (real \<Rightarrow> real) \<Rightarrow> Object3D option \<Rightarrow> real \<Rightarrow> real
     \<Rightarrow> error + AlphaDistanceFromObjectShader" where
  "AlphaDistanceFromObjectShader_init scene blend_mode influence mapping invert curve target rmin rmax =
     (case CurveMappingModifier_init blend_mode influence mapping invert curve of
        Inl e \<Rightarrow> Inl e
      | Inr base \<Rightarrow>
          (case target of
             None \<Rightarrow> Inl (ValueError ''AlphaDistanceFromObjectShader: target can't be None '')
           | Some ob \<Rightarrow>
               Inr \<lparr>sbm_blend = sbm_blend base, sbm_influence = sbm_influence base,
                    cmm_mapping = cmm_mapping base, cmm_invert = cmm_invert base,
                    cmm_curve = cmm_curve base, ado_range_min = rmin, ado_range_max = rmax,
                    ado_loc = model_view scene (location ob)\<rparr>))"

text \<open>
  \<^verbatim>\<open>BaseThicknessShader.__init__(self, thickness, position, ratio)\<close> splits the
  thickness by the position at once, and raises on a position it does not know.
\<close>

record BaseThicknessShader = ThicknessModifierMixIn +
  bts_outer :: real
  bts_inner :: real

definition BaseThicknessShader_init :: "Scene \<Rightarrow> real \<Rightarrow> string \<Rightarrow> real \<Rightarrow> error + BaseThicknessShader" where
  "BaseThicknessShader_init scene thickness' pos r =
     (case ThicknessModifierMixIn_init scene of
        Inl e \<Rightarrow> Inl e
      | Inr base \<Rightarrow>
          if pos = ''CENTER'' then
            Inr \<lparr>persp_camera = persp_camera base, bts_outer = thickness' * 0.5,
                 bts_inner = thickness' - thickness' * 0.5\<rparr>
          else if pos = ''INSIDE'' then
            Inr \<lparr>persp_camera = persp_camera base, bts_outer = 0, bts_inner = thickness'\<rparr>
          else if pos = ''OUTSIDE'' then
            Inr \<lparr>persp_camera = persp_camera base, bts_outer = thickness', bts_inner = 0\<rparr>
          else if pos = ''RELATIVE'' then
            Inr \<lparr>persp_camera = persp_camera base, bts_outer = thickness' * r,
                 bts_inner = thickness' - thickness' * r\<rparr>
          else Inl (ValueError (''unknown thickness position: '' @ pos)))"

text \<open>
  \<^verbatim>\<open>Transform2DShader.__init__\<close> stores its arguments and then checks the pivot.
\<close>

record Transform2DShader =
  t2d_pivot :: string
  t2d_scale :: vec2
  cos_theta :: real
  sin_theta :: real
  t2d_pivot_u :: real
  t2d_pivot_x :: real
  t2d_pivot_y :: real

definition Transform2DShader_init ::
  "string \<Rightarrow> real \<Rightarrow> real \<Rightarrow> real \<Rightarrow> real \<Rightarrow> real \<Rightarrow> real \<Rightarrow> error + Transform2DShader" where
  "Transform2DShader_init pivot scale_x scale_y angle pivot_u pivot_x pivot_y =
     (if pivot \<notin> {''START'', ''END'', ''CENTER'', ''ABSOLUTE'', ''PARAM''} then
        Inl (ValueError
          (''expected pivot in {'START', 'END', 'CENTER', 'ABSOLUTE', 'PARAM'}, not'' @ pivot))
      else
        Inr \<lparr>t2d_pivot = pivot, t2d_scale = (scale_x, scale_y), cos_theta = cos angle,
             sin_theta = sin angle, t2d_pivot_u = pivot_u, t2d_pivot_x = pivot_x,
             t2d_pivot_y = pivot_y\<rparr>)"

text \<open>The names \<^verbatim>\<open>blend\<close> and \<^verbatim>\<open>blend_thickness\<close> know.\<close>

definition blend_types :: "string set" where
  "blend_types = {''MIX'', ''ADD'', ''MULTIPLY'', ''SUBTRACT'', ''DIVIDE'', ''DIFFERENCE'',
     ''MININUM'', ''MAXIMUM''}"

definition thickness_positions :: "string set" where
  "thickness_positions = {''CENTER'', ''INSIDE'', ''OUTSIDE'', ''RELATIVE''}"

chapter \<open>Properties\<close>

section \<open>bound\<close>

text \<open>
  Claim C10. For all real lower, x, higher with lower <= higher, bound(lower, x, higher)
  equals min(max(x, lower), higher); without that precondition the two expressions differ
  for some lower > higher.
\<close>

theorem bound_refines_docstring:
  "(\<forall>lower x higher. lower \<le> higher \<longrightarrow> bound lower x higher = bound_docstring lower x higher)
   \<and> (\<exists>lower x higher. higher < lower \<and> bound lower x higher \<noteq> bound_docstring lower x higher)"
proof (intro conjI allI impI)
  fix lower x higher :: real
  assume "lower \<le> higher"
  then show "bound lower x higher = bound_docstring lower x higher"
    by (simp add: bound_def bound_docstring_def min_def max_def)
next
  have "(0::real) < 1 \<and> bound 1 0 0 \<noteq> bound_docstring 1 0 0"
    by (simp add: bound_def bound_docstring_def)
  then show "\<exists>lower x higher. higher < lower \<and> bound lower x higher \<noteq> bound_docstring lower x higher"
    by blast
qed

theorem bound_refines_docstring_witness:
  "(0::real) \<le> 1 \<and> bound 0 (1/2) 1 = bound_docstring 0 (1/2) 1 \<and> bound 0 (1/2) 1 = 1/2"
proof -
  have "\<forall>lower x higher. lower \<le> higher \<longrightarrow> bound lower x higher = bound_docstring lower x higher"
    using bound_refines_docstring by (rule conjunct1)
  then have "bound 0 (1/2) 1 = bound_docstring 0 (1/2) 1"
    by simp
  then show ?thesis
    by (simp add: bound_docstring_def)
qed

section \<open>The blend modes\<close>

text \<open>
  Claim C1. For all real v1, v2 and influence f, blend computes
  MIX = (1-f)*v1 + f*v2, ADD = v1 + f*v2, MULTIPLY = v1*(1-f+f*v2), SUBTRACT = v1 - f*v2,
  DIVIDE = (1-f)*v1 + f*v1/v2 when v2 is nonzero and v1 when v2 = 0 (no exception),
  DIFFERENCE = (1-f)*v1 + f*|v1-v2|, MININUM = min(f*v2, v1), MAXIMUM = max(f*v2, v1);
  MIX with f = 0 returns v1 and MIX with f = 1 returns v2.
\<close>

theorem blend_modes:
  "blend \<lparr>sbm_blend = ''MIX'', sbm_influence = f\<rparr> v1 v2 = Inr ((1 - f) * v1 + f * v2)
   \<and> blend \<lparr>sbm_blend = ''ADD'', sbm_influence = f\<rparr> v1 v2 = Inr (v1 + f * v2)
   \<and> blend \<lparr>sbm_blend = ''MULTIPLY'', sbm_influence = f\<rparr> v1 v2 = Inr (v1 * (1 - f + f * v2))
   \<and> blend \<lparr>sbm_blend = ''SUBTRACT'', sbm_influence = f\<rparr> v1 v2 = Inr (v1 - f * v2)
   \<and> blend \<lparr>sbm_blend = ''DIVIDE'', sbm_influence = f\<rparr> v1 v2 =
        Inr (if v2 = 0 then v1 else (1 - f) * v1 + f * v1 / v2)
   \<and> blend \<lparr>sbm_blend = ''DIFFERENCE'', sbm_influence = f\<rparr> v1 v2 =
        Inr ((1 - f) * v1 + f * \<bar>v1 - v2\<bar>)
   \<and> blend \<lparr>sbm_blend = ''MININUM'', sbm_influence = f\<rparr> v1 v2 = Inr (min (f * v2) v1)
   \<and> blend \<lparr>sbm_blend = ''MAXIMUM'', sbm_influence = f\<rparr> v1 v2 = Inr (max (f * v2) v1)
   \<and> blend \<lparr>sbm_blend = ''MIX'', sbm_influence = 0\<rparr> v1 v2 = Inr v1
   \<and> blend \<lparr>sbm_blend = ''MIX'', sbm_influence = 1\<rparr> v1 v2 = Inr v2"
  by (simp add: blend_def)

section \<open>The position policies of blend_thickness\<close>

text \<open>
  Claim C2. For every blended target value v produced inside blend_thickness and every
  position policy with ratio r: OUTSIDE yields (outer, inner) = (v, 0), INSIDE yields
  (0, v), CENTER yields (v/2, v/2), RELATIVE yields (v*r, v*(1-r)); in all four cases
  outer + inner equals v.
\<close>

theorem blend_thickness_split:
  assumes "blend self_blend (outer + inner) b = Inr v"
  shows "(position self = ''OUTSIDE'' \<longrightarrow> blend_thickness self self_blend outer inner b = Inr (v, 0))
    \<and> (position self = ''INSIDE'' \<longrightarrow> blend_thickness self self_blend outer inner b = Inr (0, v))
    \<and> (position self = ''CENTER'' \<longrightarrow> blend_thickness self self_blend outer inner b = Inr (v / 2, v / 2))
    \<and> (position self = ''RELATIVE'' \<longrightarrow>
          blend_thickness self self_blend outer inner b = Inr (v * ratio self, v * (1 - ratio self)))
    \<and> (position self \<in> {''OUTSIDE'', ''INSIDE'', ''CENTER'', ''RELATIVE''} \<longrightarrow>
          (\<exists>out' in'. blend_thickness self self_blend outer inner b = Inr (out', in') \<and> out' + in' = v))"
proof -
  have centre: "position self = ''CENTER'' \<Longrightarrow>
      blend_thickness self self_blend outer inner b = Inr (v / 2, v / 2)"
    using assms by (simp add: blend_thickness_def Let_def)
  have inside: "position self = ''INSIDE'' \<Longrightarrow>
      blend_thickness self self_blend outer inner b = Inr (0, v)"
    using assms by (simp add: blend_thickness_def)
  have outside: "position self = ''OUTSIDE'' \<Longrightarrow>
      blend_thickness self self_blend outer inner b = Inr (v, 0)"
    using assms by (simp add: blend_thickness_def)
  have relative: "position self = ''RELATIVE'' \<Longrightarrow>
      blend_thickness self self_blend outer inner b = Inr (v * ratio self, v * (1 - ratio self))"
    using assms by (simp add: blend_thickness_def Let_def algebra_simps)
  have total: "\<exists>out' in'. blend_thickness self self_blend outer inner b = Inr (out', in') \<and> out' + in' = v"
    if "position self \<in> {''OUTSIDE'', ''INSIDE'', ''CENTER'', ''RELATIVE''}"
  proof -
    from that consider "position self = ''OUTSIDE''" | "position self = ''INSIDE''"
      | "position self = ''CENTER''" | "position self = ''RELATIVE''"
      by blast
    then show ?thesis
    proof cases
      case 1
      with outside have "blend_thickness self self_blend outer inner b = Inr (v, 0) \<and> v + 0 = v"
        by simp
      then show ?thesis by blast
    next
      case 2
      with inside have "blend_thickness self self_blend outer inner b = Inr (0, v) \<and> 0 + v = v"
        by simp
      then show ?thesis by blast
    next
      case 3
      with centre have "blend_thickness self self_blend outer inner b = Inr (v / 2, v / 2)
          \<and> v / 2 + v / 2 = v"
        by simp
      then show ?thesis by blast
    next
      case 4
      with relative have "blend_thickness self self_blend outer inner b
            = Inr (v * ratio self, v * (1 - ratio self))
          \<and> v * ratio self + v * (1 - ratio self) = v"
        by (simp add: algebra_simps)
      then show ?thesis by blast
    qed
  qed
  from centre inside outside relative total show ?thesis
    by blast
qed

theorem blend_thickness_split_witness:
  "blend_thickness \<lparr>persp_camera = True, position = ''RELATIVE'', ratio = 1 / 4\<rparr>
     \<lparr>sbm_blend = ''ADD'', sbm_influence = 1\<rparr> 1 2 5 = Inr (2, 6)"
proof -
  have "blend \<lparr>sbm_blend = ''ADD'', sbm_influence = 1\<rparr> (1 + 2) 5 = Inr 8"
    by (simp add: blend_def)
  from blend_thickness_split [OF this,
      of "\<lparr>persp_camera = True, position = ''RELATIVE'', ratio = 1 / 4\<rparr>"]
  show ?thesis by simp
qed

section \<open>The side assignment of set_thickness\<close>

lemma normalized_neg_v3: "normalized_v3 (neg_v3 v) = neg_v3 (normalized_v3 v)"
  by (cases v) (simp add: normalized_v3_def neg_v3_def length_v3_def Let_def)

text \<open>
  Claim C3. For every stroke vertex and every (outer, inner) pair passed to set_thickness:
  if the nature of the underlying fedge has the BORDER flag, the pair is swapped exactly
  when the camera-facing test is negative; otherwise, if the nature has the SILHOUETTE
  flag, the pair is swapped exactly when the fedge is smooth; for all other natures both
  sides are set to the average (outer+inner)/2.
\<close>

theorem set_thickness_sides:
  assumes "get_fedge (first_svertex sv) (second_svertex sv) = Some fe"
  shows "\<exists>t. set_thickness N get_fedge self sv outer inner = Inr (sv\<lparr>thickness := t\<rparr>)
    \<and> (nature fe AND BORDER N \<noteq> 0 \<longrightarrow>
          t = (if camera_facing (persp_camera self) (point_3d sv) (normal_left fe) < 0
               then (inner, outer) else (outer, inner)))
    \<and> (nature fe AND BORDER N = 0 \<and> nature fe AND SILHOUETTE N \<noteq> 0 \<longrightarrow>
          t = (if is_smooth fe then (inner, outer) else (outer, inner)))
    \<and> (nature fe AND BORDER N = 0 \<and> nature fe AND SILHOUETTE N = 0 \<longrightarrow>
          t = ((outer + inner) / 2, (outer + inner) / 2))"
proof -
  define dir where "dir = camera_facing (persp_camera self) (point_3d sv) (normal_left fe)"
  define t where "t =
    (if nature fe AND BORDER N \<noteq> 0 then (if dir < 0 then (inner, outer) else (outer, inner))
     else if nature fe AND SILHOUETTE N \<noteq> 0 then
       (if is_smooth fe then (inner, outer) else (outer, inner))
     else ((outer + inner) / 2, (outer + inner) / 2))"
  have "set_thickness N get_fedge self sv outer inner = Inr (sv\<lparr>thickness := t\<rparr>)"
    using assms
    by (simp add: set_thickness_def t_def dir_def camera_facing_def normalized_neg_v3 Let_def)
  moreover have "nature fe AND BORDER N \<noteq> 0 \<longrightarrow>
      t = (if dir < 0 then (inner, outer) else (outer, inner))"
    by (simp add: t_def)
  moreover have "nature fe AND BORDER N = 0 \<and> nature fe AND SILHOUETTE N \<noteq> 0 \<longrightarrow>
      t = (if is_smooth fe then (inner, outer) else (outer, inner))"
    by (simp add: t_def)
  moreover have "nature fe AND BORDER N = 0 \<and> nature fe AND SILHOUETTE N = 0 \<longrightarrow>
      t = ((outer + inner) / 2, (outer + inner) / 2)"
    by (simp add: t_def)
  ultimately show ?thesis
    unfolding dir_def by blast
qed

theorem set_thickness_sides_witness:
  "set_thickness \<lparr>SILHOUETTE = 1, BORDER = 2\<rparr>
     (\<lambda>a b. Some \<lparr>nature = 2, is_smooth = False, normal_left = (0, 0, - 1), face_mark = False,
        face_mark_left = False, face_mark_right = False, material_index = 0,
        material_index_left = 0\<rparr>)
     \<lparr>persp_camera = False\<rparr>
     \<lparr>point = (0, 0), point_3d = (0, 0, - 5), thickness = (1, 1), alpha = 1, first_svertex = 0,
        second_svertex = 1\<rparr> 3 1
   = Inr \<lparr>point = (0, 0), point_3d = (0, 0, - 5), thickness = (1, 3), alpha = 1, first_svertex = 0,
        second_svertex = 1\<rparr>"
proof -
  let ?fe = "\<lparr>nature = 2, is_smooth = False, normal_left = (0, 0, - 1), face_mark = False,
        face_mark_left = False, face_mark_right = False, material_index = 0,
        material_index_left = 0\<rparr>"
  let ?sv = "\<lparr>point = (0, 0), point_3d = (0, 0, - 5), thickness = (1, 1), alpha = 1, first_svertex = 0,
        second_svertex = 1\<rparr>"
  have "(\<lambda>a b. Some ?fe) (first_svertex ?sv) (second_svertex ?sv) = Some ?fe"
    by simp
  from set_thickness_sides [OF this, where N = "\<lparr>SILHOUETTE = 1, BORDER = 2\<rparr>"
      and self = "\<lparr>persp_camera = False\<rparr>" and outer = 3 and inner = 1]
  show ?thesis
    by (auto simp: camera_facing_def z_v3_def)
qed

section \<open>The dash pattern controller on the pattern [10, 5]\<close>

lemma init_dash_10_5:
  "SplitPatternController_init [10, 5] 1 =
     \<lparr>sampling = 1, start_pos = [15], stop_pos = [10], start_len = real 0,
        start_idx = 0, stop_len = 1, stop_idx = 0\<rparr>"
  by (simp add: SplitPatternController_init_def init_def pairwise_it_def)

lemma start_dash_10_5:
  assumes "m < 15"
  shows "start \<lparr>sampling = 1, start_pos = [15], stop_pos = [10], start_len = real m,
                 start_idx = 0, stop_len = 1, stop_idx = 0\<rparr>
    = Inr (Suc m = 15,
           \<lparr>sampling = 1, start_pos = [15], stop_pos = [10], start_len = real (Suc m mod 15),
              start_idx = 0, stop_len = 1, stop_idx = 0\<rparr>)"
proof (cases "Suc m = 15")
  case True
  then have "m = 14" by simp
  then show ?thesis
    by (simp add: start_def Let_def)
next
  case False
  with assms have lt: "Suc m < 15" by simp
  then have "\<not> \<bar>real m + 1 - 15\<bar> < 1 / 2"
    by simp
  with lt False show ?thesis
    by (simp add: start_def Let_def add.commute)
qed

lemma start_calls_dash_10_5:
  "m < 15 \<Longrightarrow>
   start_calls n \<lparr>sampling = 1, start_pos = [15], stop_pos = [10], start_len = real m,
                    start_idx = 0, stop_len = 1, stop_idx = 0\<rparr>
     = Inr (map (\<lambda>k. 15 dvd (m + k + 1)) [0..<n],
            \<lparr>sampling = 1, start_pos = [15], stop_pos = [10], start_len = real ((m + n) mod 15),
               start_idx = 0, stop_len = 1, stop_idx = 0\<rparr>)"
proof (induction n arbitrary: m)
  case 0
  then show ?case by simp
next
  case (Suc n)
  have lt: "Suc m mod 15 < 15" by simp
  have first: "(Suc m = 15) = (15 dvd Suc m)"
    using Suc.prems by presburger
  have shift: "map (\<lambda>k. 15 dvd (Suc m mod 15 + k + 1)) [0..<n]
      = map (\<lambda>k. 15 dvd (m + Suc k + 1)) [0..<n]"
  proof (rule map_cong)
    fix k
    show "(15 dvd (Suc m mod 15 + k + 1)) = (15 dvd (m + Suc k + 1))"
      by presburger
  qed simp
  have "map (\<lambda>k. 15 dvd (m + k + 1)) [0..<Suc n] =
        (15 dvd (m + 0 + 1)) # map (\<lambda>k. 15 dvd (m + Suc k + 1)) [0..<n]"
    by (simp only: upt_conv_Cons [of 0 "Suc n"] map_Suc_upt [symmetric] list.map map_map comp_def
        zero_less_Suc)
  moreover have "(Suc m mod 15 + n) mod 15 = (m + Suc n) mod 15"
    by (simp add: mod_simps)
  ultimately show ?case
    using start_dash_10_5 [OF Suc.prems] Suc.IH [OF lt] first shift by simp
qed

text \<open>
  Claim C4. For a SplitPatternController constructed with pattern [10, 5] and sampling 1.0,
  successive calls of start() return True exactly on every 15th call (cumulative positions
  15, 30, ...) and False on all other calls, whatever the number of calls.
\<close>

theorem start_fires_every_15th_call:
  "\<exists>self'. start_calls n (SplitPatternController_init [10, 5] 1)
      = Inr (map (\<lambda>k. 15 dvd (k + 1)) [0..<n], self')"
  using start_calls_dash_10_5 [of 0 n] by (simp add: init_dash_10_5)

section \<open>The distance from the camera\<close>

lemma distance_value_cases:
  fixes d :: real
  assumes "range_min < range_max"
  defines "t \<equiv> (if range_min < d \<and> d < range_max
                 then (d - range_min) / (range_max - range_min)
                 else (if range_min > d then 0 else 1))"
  shows "(d < range_min \<longrightarrow> t = 0) \<and> (range_max < d \<longrightarrow> t = 1)
    \<and> (range_min < d \<and> d < range_max \<longrightarrow> t = (d - range_min) / (range_max - range_min))
    \<and> 0 \<le> t \<and> t \<le> 1"
  using assms by (auto simp: t_def divide_le_eq)

lemma length_v3_3_4_0: "length_v3 (3, 4, 0) = 5"
proof -
  have "sqrt (5 * 5) = \<bar>5::real\<bar>"
    by (rule real_sqrt_abs2)
  then have "sqrt 25 = (5::real)"
    by simp
  then show ?thesis
    by (simp add: length_v3_def)
qed

text \<open>
  Claim C7. For every stroke vertex, with range_min < range_max, iter_distance_from_camera
  yields 0 for distances below range_min, 1 for distances above range_max, and
  (distance - range_min)/(range_max - range_min) for distances strictly between them;
  every yielded value lies in [0, 1].
\<close>

theorem iter_distance_from_camera_clipped:
  assumes "range_min < range_max" and "i < length stroke"
  shows "length (iter_distance_from_camera stroke range_min range_max) = length stroke
    \<and> (length_v3 (point_3d (stroke ! i)) < range_min \<longrightarrow>
          iter_distance_from_camera stroke range_min range_max ! i = 0)
    \<and> (range_max < length_v3 (point_3d (stroke ! i)) \<longrightarrow>
          iter_distance_from_camera stroke range_min range_max ! i = 1)
    \<and> (range_min < length_v3 (point_3d (stroke ! i))
         \<and> length_v3 (point_3d (stroke ! i)) < range_max \<longrightarrow>
          iter_distance_from_camera stroke range_min range_max ! i
            = (length_v3 (point_3d (stroke ! i)) - range_min) / (range_max - range_min))
    \<and> 0 \<le> iter_distance_from_camera stroke range_min range_max ! i
    \<and> iter_distance_from_camera stroke range_min range_max ! i \<le> 1"
proof -
  have len: "length (iter_distance_from_camera stroke range_min range_max) = length stroke"
    by (simp add: iter_distance_from_camera_def Let_def)
  have nth: "iter_distance_from_camera stroke range_min range_max ! i =
      (if range_min < length_v3 (point_3d (stroke ! i))
          \<and> length_v3 (point_3d (stroke ! i)) < range_max
       then (length_v3 (point_3d (stroke ! i)) - range_min) / (range_max - range_min)
       else (if range_min > length_v3 (point_3d (stroke ! i)) then 0 else 1))"
    using assms(2) by (simp add: iter_distance_from_camera_def Let_def)
  show ?thesis
    unfolding nth
    using len distance_value_cases [OF assms(1), of "length_v3 (point_3d (stroke ! i))"]
    by simp
qed

theorem iter_distance_from_camera_clipped_witness:
  "iter_distance_from_camera
     [\<lparr>point = (0, 0), point_3d = (3, 4, 0), thickness = (1, 1), alpha = 1, first_svertex = 0,
        second_svertex = 1\<rparr>]
     1 9 ! 0 = 1 / 2"
proof -
  let ?stroke = "[\<lparr>point = (0, 0), point_3d = (3, 4, 0), thickness = (1, 1), alpha = 1, first_svertex = 0,
        second_svertex = 1\<rparr>]"
  have "(1::real) < 9" and "0 < length ?stroke"
    by simp_all
  from iter_distance_from_camera_clipped [OF this]
  show ?thesis
    by (simp add: length_v3_3_4_0)
qed


section \<open>The curvature of a stroke\<close>

lemma length_v2_nonneg: "0 \<le> length_v2 p"
  by (simp add: length_v2_def)

lemma cross_colinear:
  assumes "colinear_v2 p q r"
  shows "cross_v2 (sub_v2 q p) (sub_v2 p r) = 0"
proof -
  from assms have "(fst q - fst p) * (snd r - snd p) = (snd q - snd p) * (fst r - fst p)"
    by (simp add: colinear_v2_def)
  then show ?thesis
    by (simp add: cross_v2_def sub_v2_def algebra_simps)
qed

lemma bound_unit: "0 \<le> bound 0 K 1 \<and> bound 0 K 1 \<le> 1"
  by (simp add: bound_def)

lemma stroke_curvature_interior:
  assumes "0 < it_index it" and "it_index it + 1 < length (it_items it)"
  shows "stroke_curvature it =
    (let prev = point (it_items it ! (it_index it - 1));
         current = point (it_items it ! it_index it);
         next' = point (it_items it ! (it_index it + 1));
         abc = length_v2 (sub_v2 current prev) * length_v2 (sub_v2 next' current)
                 * length_v2 (sub_v2 prev next')
     in if abc = 0 then Inr 0
        else Inr (bound 0 (4 * (0.5 * cross_v2 (sub_v2 current prev) (sub_v2 prev next')) / abc) 1))"
proof -
  from assms have inside: "\<not> is_end it" "\<not> is_begin it"
    by (simp_all add: is_end_def is_begin_def)
  from assms have objs:
    "it_object (incremented it) = Inr (it_items it ! (it_index it + 1))"
    "it_object (decremented it) = Inr (it_items it ! (it_index it - 1))"
    "it_object it = Inr (it_items it ! it_index it)"
    by (simp_all add: it_object_def incremented_def decremented_def less_imp_diff_less)
  show ?thesis
    by (simp add: stroke_curvature_def inside objs py_div_def Let_def)
qed

text \<open>
  Claim C5. For every interior stroke-vertex position (not at the begin or end of the
  iterator), stroke_curvature returns a value in the closed interval [0, 1]; when the
  previous, current and next points are colinear it returns exactly 0; and when the
  division in K = 4*area/(a*b*c) divides by zero it returns 0 rather than raising.
\<close>

theorem stroke_curvature_unit_interval:
  assumes "0 < it_index it" and "it_index it + 1 < length (it_items it)"
  shows "\<exists>K. stroke_curvature it = Inr K \<and> 0 \<le> K \<and> K \<le> 1
    \<and> (colinear_v2 (point (it_items it ! (it_index it - 1))) (point (it_items it ! it_index it))
          (point (it_items it ! (it_index it + 1))) \<longrightarrow> K = 0)
    \<and> (length_v2 (sub_v2 (point (it_items it ! it_index it)) (point (it_items it ! (it_index it - 1))))
        * length_v2 (sub_v2 (point (it_items it ! (it_index it + 1))) (point (it_items it ! it_index it)))
        * length_v2 (sub_v2 (point (it_items it ! (it_index it - 1))) (point (it_items it ! (it_index it + 1))))
        = 0 \<longrightarrow> K = 0)"
proof -
  define prev where "prev = point (it_items it ! (it_index it - 1))"
  define current where "current = point (it_items it ! it_index it)"
  define next' where "next' = point (it_items it ! (it_index it + 1))"
  define abc where "abc = length_v2 (sub_v2 current prev) * length_v2 (sub_v2 next' current)
                 * length_v2 (sub_v2 prev next')"
  define K where "K = (if abc = 0 then 0
     else bound 0 (4 * (0.5 * cross_v2 (sub_v2 current prev) (sub_v2 prev next')) / abc) 1)"
  have eq: "stroke_curvature it = Inr K"
    using stroke_curvature_interior [OF assms]
    by (simp add: K_def abc_def prev_def current_def next'_def Let_def)
  have range: "0 \<le> K \<and> K \<le> 1"
    using bound_unit by (simp add: K_def)
  have col: "K = 0" if "colinear_v2 prev current next'"
    using cross_colinear [OF that] by (simp add: K_def bound_def)
  have zero: "K = 0" if "abc = 0"
    using that by (simp add: K_def)
  from eq range col zero show ?thesis
    unfolding prev_def current_def next'_def abc_def by blast
qed

theorem stroke_curvature_unit_interval_witness:
  "stroke_curvature
     \<lparr>it_items =
        [\<lparr>point = (0, 0), point_3d = (0, 0, 0), thickness = (1, 1), alpha = 1,
           first_svertex = 0, second_svertex = 1\<rparr>,
         \<lparr>point = (1, 0), point_3d = (0, 0, 0), thickness = (1, 1), alpha = 1,
           first_svertex = 0, second_svertex = 1\<rparr>,
         \<lparr>point = (2, 0), point_3d = (0, 0, 0), thickness = (1, 1), alpha = 1,
           first_svertex = 0, second_svertex = 1\<rparr>],
      it_index = 1\<rparr> = Inr 0"
proof -
  let ?it = "\<lparr>it_items =
        [\<lparr>point = (0, 0), point_3d = (0, 0, 0), thickness = (1, 1), alpha = 1,
           first_svertex = 0, second_svertex = 1\<rparr>,
         \<lparr>point = (1, 0), point_3d = (0, 0, 0), thickness = (1, 1), alpha = 1,
           first_svertex = 0, second_svertex = 1\<rparr>,
         \<lparr>point = (2, 0), point_3d = (0, 0, 0), thickness = (1, 1), alpha = 1,
           first_svertex = 0, second_svertex = 1\<rparr>],
      it_index = 1\<rparr>"
  have "0 < it_index ?it" and "it_index ?it + 1 < length (it_items ?it)"
    by simp_all
  from stroke_curvature_unit_interval [OF this]
  show ?thesis
    by (auto simp: colinear_v2_def)
qed

section \<open>The material boundary predicate\<close>

lemma neighbours_begin: "is_begin it \<Longrightarrow> neighbours it = Inl RuntimeError"
  by (simp add: neighbours_def decrement_def)

lemma neighbours_last:
  assumes "0 < it_index it" and "length (it_items it) \<le> it_index it + 1"
  shows "neighbours it = Inl RuntimeError \<or> neighbours it = Inl StopIteration"
  using assms
  by (auto simp: neighbours_def decrement_def is_begin_def it_object_def next_it_def
      split: sum.splits)

lemma neighbours_interior:
  assumes "0 < it_index it" and "it_index it + 1 < length (it_items it)"
  shows "neighbours it =
    Inr (it_items it ! (it_index it - 1), it_items it ! it_index it, it_items it ! (it_index it + 1))"
  using assms
  by (simp add: neighbours_def decrement_def is_begin_def it_object_def next_it_def
      less_imp_diff_less)

lemma material_boundary_ends:
  assumes "it_index it = 0 \<or> length (it_items it) \<le> it_index it + 1"
  shows "MaterialBoundaryUP0D_call get_fedge it = Inr False"
proof (cases "it_index it = 0")
  case True
  then show ?thesis
    by (simp add: MaterialBoundaryUP0D_call_def neighbours_begin is_begin_def)
next
  case False
  with assms have "0 < it_index it" and "length (it_items it) \<le> it_index it + 1"
    by simp_all
  from neighbours_last [OF this] show ?thesis
    by (auto simp: MaterialBoundaryUP0D_call_def)
qed

lemma material_boundary_interior:
  assumes "0 < it_index it" and "it_index it + 1 < length (it_items it)"
    and "get_fedge (it_items it ! it_index it) (it_items it ! (it_index it - 1)) = Some fe_in"
    and "get_fedge (it_items it ! it_index it) (it_items it ! (it_index it + 1)) = Some fe_out"
  shows "MaterialBoundaryUP0D_call get_fedge it
    = Inr (segment_material fe_in \<noteq> segment_material fe_out)"
  using assms(3,4)
  by (simp add: MaterialBoundaryUP0D_call_def neighbours_interior [OF assms(1,2)]
      segment_material_def Let_def)

lemma material_boundary_chain:
  assumes k: "0 < k" "k < length segs"
    and mat: "\<forall>j<length segs. segment_material (segs ! j) = (if j < k then m1 else m2)"
    and ne: "m1 \<noteq> m2"
  shows "MaterialBoundaryUP0D_call (chain_get_fedge segs) (chain_iterator segs i) = Inr (i = k)"
proof (cases "0 < i \<and> i < length segs")
  case False
  then have "it_index (chain_iterator segs i) = 0
      \<or> length (it_items (chain_iterator segs i)) \<le> it_index (chain_iterator segs i) + 1"
    by (auto simp: chain_iterator_def)
  from material_boundary_ends [OF this] False k show ?thesis
    by auto
next
  case True
  then have i: "0 < i" "i < length segs" by simp_all
  let ?it = "chain_iterator segs i"
  have idx: "0 < it_index ?it" "it_index ?it + 1 < length (it_items ?it)"
    using i by (simp_all add: chain_iterator_def)
  have items: "it_items ?it ! it_index ?it = i" "it_items ?it ! (it_index ?it - 1) = i - 1"
    "it_items ?it ! (it_index ?it + 1) = i + 1"
    using i by (simp_all add: chain_iterator_def nth_append less_Suc_eq less_imp_diff_less)
  have fin: "chain_get_fedge segs (it_items ?it ! it_index ?it) (it_items ?it ! (it_index ?it - 1))
      = Some (segs ! (i - 1))"
    unfolding items using i by (simp add: chain_get_fedge_def less_imp_diff_less)
  have fout: "chain_get_fedge segs (it_items ?it ! it_index ?it) (it_items ?it ! (it_index ?it + 1))
      = Some (segs ! i)"
    unfolding items using i by (simp add: chain_get_fedge_def less_imp_diff_less)
  have "segment_material (segs ! (i - 1)) = (if i - 1 < k then m1 else m2)"
    using mat i by simp
  moreover have "segment_material (segs ! i) = (if i < k then m1 else m2)"
    using mat i by simp
  ultimately have "(segment_material (segs ! (i - 1)) \<noteq> segment_material (segs ! i)) = (i = k)"
    using ne i by auto
  with material_boundary_interior [where get_fedge = "chain_get_fedge segs" and it = ?it,
      OF idx fin fout]
  show ?thesis
    by simp
qed

text \<open>
  Claim C6. MaterialBoundaryUP0D, called at any vertex of a chain, returns True exactly when
  the material index of the incoming segment (one vertex back) differs from that of the
  outgoing segment (one vertex forward), and returns False without raising when the
  iterator is at either end of the chain; so on a chain whose material index changes once,
  at an inner vertex, it fires exactly at that vertex and never at the endpoints.
\<close>

theorem material_boundary_fires_at_change:
  "(\<forall>get_fedge it fe_in fe_out.
      0 < it_index it \<and> it_index it + 1 < length (it_items it)
      \<and> get_fedge (it_items it ! it_index it) (it_items it ! (it_index it - 1)) = Some fe_in
      \<and> get_fedge (it_items it ! it_index it) (it_items it ! (it_index it + 1)) = Some fe_out
      \<longrightarrow> MaterialBoundaryUP0D_call get_fedge it
            = Inr (segment_material fe_in \<noteq> segment_material fe_out))
   \<and> (\<forall>get_fedge it.
      it_index it = 0 \<or> length (it_items it) \<le> it_index it + 1
      \<longrightarrow> MaterialBoundaryUP0D_call get_fedge it = Inr False)
   \<and> (\<forall>segs k m1 m2 i.
      0 < k \<and> k < length segs \<and> m1 \<noteq> m2
      \<and> (\<forall>j<length segs. segment_material (segs ! j) = (if j < k then m1 else m2))
      \<longrightarrow> MaterialBoundaryUP0D_call (chain_get_fedge segs) (chain_iterator segs i) = Inr (i = k))"
  using material_boundary_interior material_boundary_ends material_boundary_chain
  by (intro conjI allI impI) blast+

theorem material_boundary_fires_at_change_witness:
  "MaterialBoundaryUP0D_call
     (chain_get_fedge [\<lparr>nature = 0, is_smooth = True, normal_left = (0, 0, 1), face_mark = False,
        face_mark_left = False, face_mark_right = False, material_index = 7,
        material_index_left = 0\<rparr>,
       \<lparr>nature = 0, is_smooth = True, normal_left = (0, 0, 1), face_mark = False,
        face_mark_left = False, face_mark_right = False, material_index = 7,
        material_index_left = 0\<rparr>,
       \<lparr>nature = 0, is_smooth = True, normal_left = (0, 0, 1), face_mark = False,
        face_mark_left = False, face_mark_right = False, material_index = 9,
        material_index_left = 0\<rparr>,
       \<lparr>nature = 0, is_smooth = True, normal_left = (0, 0, 1), face_mark = False,
        face_mark_left = False, face_mark_right = False, material_index = 9,
        material_index_left = 0\<rparr>])
     (chain_iterator [\<lparr>nature = 0, is_smooth = True, normal_left = (0, 0, 1), face_mark = False,
        face_mark_left = False, face_mark_right = False, material_index = 7,
        material_index_left = 0\<rparr>,
       \<lparr>nature = 0, is_smooth = True, normal_left = (0, 0, 1), face_mark = False,
        face_mark_left = False, face_mark_right = False, material_index = 7,
        material_index_left = 0\<rparr>,
       \<lparr>nature = 0, is_smooth = True, normal_left = (0, 0, 1), face_mark = False,
        face_mark_left = False, face_mark_right = False, material_index = 9,
        material_index_left = 0\<rparr>,
       \<lparr>nature = 0, is_smooth = True, normal_left = (0, 0, 1), face_mark = False,
        face_mark_left = False, face_mark_right = False, material_index = 9,
        material_index_left = 0\<rparr>] 2)
   = Inr True"
proof -
  let ?segs = "[\<lparr>nature = 0, is_smooth = True, normal_left = (0, 0, 1), face_mark = False,
        face_mark_left = False, face_mark_right = False, material_index = 7,
        material_index_left = 0\<rparr>,
       \<lparr>nature = 0, is_smooth = True, normal_left = (0, 0, 1), face_mark = False,
        face_mark_left = False, face_mark_right = False, material_index = 7,
        material_index_left = 0\<rparr>,
       \<lparr>nature = 0, is_smooth = True, normal_left = (0, 0, 1), face_mark = False,
        face_mark_left = False, face_mark_right = False, material_index = 9,
        material_index_left = 0\<rparr>,
       \<lparr>nature = 0, is_smooth = True, normal_left = (0, 0, 1), face_mark = False,
        face_mark_left = False, face_mark_right = False, material_index = 9,
        material_index_left = 0\<rparr>]"
  have "0 < (2::nat) \<and> 2 < length ?segs \<and> (7::int) \<noteq> 9
      \<and> (\<forall>j<length ?segs. segment_material (?segs ! j) = (if j < 2 then 7 else 9))"
    by (simp add: segment_material_def eval_nat_numeral All_less_Suc)
  with material_boundary_fires_at_change
  have "MaterialBoundaryUP0D_call (chain_get_fedge ?segs) (chain_iterator ?segs 2) = Inr (2 = (2::nat))"
    by blast
  then show ?thesis
    by simp
qed

section \<open>Configuration errors\<close>

lemma blend_unknown:
  "sbm_blend self \<notin> blend_types \<Longrightarrow>
   blend self v1 v2 = Inl (ValueError (''unknown curve blend type: '' @ sbm_blend self))"
  by (simp add: blend_def blend_types_def Let_def)

lemma blend_known: "sbm_blend self \<in> blend_types \<Longrightarrow> \<exists>v. blend self v1 v2 = Inr v"
  by (auto simp: blend_def blend_types_def Let_def)

lemma shade_alpha_unknown:
  "sbm_blend self \<notin> blend_types \<Longrightarrow> pairs \<noteq> [] \<Longrightarrow>
   shade_alpha self pairs = Inl (ValueError (''unknown curve blend type: '' @ sbm_blend self))"
  by (cases pairs) (auto simp: blend_unknown Let_def)

text \<open>
  Claim C8 says that every configuration error (an unknown blend mode, an unknown thickness
  position, an unknown pivot mode, a None target) raises ValueError when the modifier is
  constructed, before any stroke is shaded. The constructors accept an unknown blend
  mode: the error is raised when a stroke is shaded.
\<close>

theorem unknown_blend_mode_counterexample:
  "ScalarBlendModifier_init ''SCREEN'' 1 = Inr \<lparr>sbm_blend = ''SCREEN'', sbm_influence = 1\<rparr>
   \<and> AlphaDistanceFromCameraShader_init ''SCREEN'' 1 ''LINEAR'' False id 0 10
       = Inr \<lparr>sbm_blend = ''SCREEN'', sbm_influence = 1, cmm_mapping = ''LINEAR'',
              cmm_invert = False, cmm_curve = id, adc_range_min = 0, adc_range_max = 10\<rparr>
   \<and> AlphaDistanceFromCameraShader_shade
        \<lparr>sbm_blend = ''SCREEN'', sbm_influence = 1, cmm_mapping = ''LINEAR'',
           cmm_invert = False, cmm_curve = id, adc_range_min = 0, adc_range_max = 10\<rparr>
        [\<lparr>point = (0, 0), point_3d = (3, 4, 0), thickness = (1, 1), alpha = 1,
           first_svertex = 0, second_svertex = 1\<rparr>]
       = Inl (ValueError ''unknown curve blend type: SCREEN'')"
  by (simp add: ScalarBlendModifier_init_def AlphaDistanceFromCameraShader_init_def
      CurveMappingModifier_init_def AlphaDistanceFromCameraShader_shade_def
      iter_distance_from_camera_def blend_def Let_def)

text \<open>
  Claim C8, amended. An unknown pivot mode, a None target and an unknown thickness position
  given to BaseThicknessShader raise ValueError at construction. An unknown blend mode is
  accepted at construction and raises ValueError when blend is evaluated while a stroke is
  shaded; an unknown thickness position given to the thickness blending mix-in is accepted
  at construction and raises ValueError in blend_thickness.
\<close>

theorem configuration_errors:
  "(pivot \<notin> {''START'', ''END'', ''CENTER'', ''ABSOLUTE'', ''PARAM''} \<longrightarrow>
      (\<exists>msg. Transform2DShader_init pivot scale_x scale_y angle pivot_u pivot_x pivot_y
         = Inl (ValueError msg)))
   \<and> (\<exists>msg. ColorDistanceFromObjectShader_init scene b f ramp None rmin rmax = Inl (ValueError msg))
   \<and> (mapping \<in> {''LINEAR'', ''CURVE''} \<longrightarrow>
      (\<exists>msg. AlphaDistanceFromObjectShader_init scene b f mapping invert crv None rmin rmax
         = Inl (ValueError msg)))
   \<and> (pos \<notin> thickness_positions \<longrightarrow>
      (\<exists>msg. BaseThicknessShader_init scene th pos r = Inl (ValueError msg)))
   \<and> (\<exists>m. ScalarBlendModifier_init b f = Inr m
        \<and> (b \<notin> blend_types \<longrightarrow> (\<exists>msg. blend m x y = Inl (ValueError msg))))
   \<and> (mapping \<in> {''LINEAR'', ''CURVE''} \<longrightarrow>
      (\<exists>m. AlphaDistanceFromCameraShader_init b f mapping invert crv rmin rmax = Inr m
        \<and> (b \<notin> blend_types \<and> stroke \<noteq> [] \<longrightarrow>
             (\<exists>msg. AlphaDistanceFromCameraShader_shade m stroke = Inl (ValueError msg)))))
   \<and> (\<exists>m. ThicknessBlenderMixIn_init scene pos r = Inr m
        \<and> (pos \<notin> thickness_positions \<and> sbm_blend self_blend \<in> blend_types \<longrightarrow>
             (\<exists>msg. blend_thickness m self_blend outer inner v = Inl (ValueError msg))))"
proof (intro conjI)
  show "pivot \<notin> {''START'', ''END'', ''CENTER'', ''ABSOLUTE'', ''PARAM''} \<longrightarrow>
      (\<exists>msg. Transform2DShader_init pivot scale_x scale_y angle pivot_u pivot_x pivot_y
         = Inl (ValueError msg))"
    by (simp add: Transform2DShader_init_def)
  show "\<exists>msg. ColorDistanceFromObjectShader_init scene b f ramp None rmin rmax = Inl (ValueError msg)"
    by (simp add: ColorDistanceFromObjectShader_init_def)
  show "mapping \<in> {''LINEAR'', ''CURVE''} \<longrightarrow>
      (\<exists>msg. AlphaDistanceFromObjectShader_init scene b f mapping invert crv None rmin rmax
         = Inl (ValueError msg))"
    by (auto simp: AlphaDistanceFromObjectShader_init_def CurveMappingModifier_init_def
        ScalarBlendModifier_init_def)
  show "pos \<notin> thickness_positions \<longrightarrow>
      (\<exists>msg. BaseThicknessShader_init scene th pos r = Inl (ValueError msg))"
    by (simp add: BaseThicknessShader_init_def ThicknessModifierMixIn_init_def
        thickness_positions_def)
  show "\<exists>m. ScalarBlendModifier_init b f = Inr m
        \<and> (b \<notin> blend_types \<longrightarrow> (\<exists>msg. blend m x y = Inl (ValueError msg)))"
    by (simp add: ScalarBlendModifier_init_def blend_unknown)
  show "mapping \<in> {''LINEAR'', ''CURVE''} \<longrightarrow>
      (\<exists>m. AlphaDistanceFromCameraShader_init b f mapping invert crv rmin rmax = Inr m
        \<and> (b \<notin> blend_types \<and> stroke \<noteq> [] \<longrightarrow>
             (\<exists>msg. AlphaDistanceFromCameraShader_shade m stroke = Inl (ValueError msg))))"
  proof
    assume ok: "mapping \<in> {''LINEAR'', ''CURVE''}"
    let ?m = "\<lparr>sbm_blend = b, sbm_influence = f, cmm_mapping = mapping, cmm_invert = invert,
        cmm_curve = crv, adc_range_min = rmin, adc_range_max = rmax\<rparr>"
    have made: "AlphaDistanceFromCameraShader_init b f mapping invert crv rmin rmax = Inr ?m"
      using ok by (auto simp: AlphaDistanceFromCameraShader_init_def CurveMappingModifier_init_def
          ScalarBlendModifier_init_def)
    have "\<exists>msg. AlphaDistanceFromCameraShader_shade ?m stroke = Inl (ValueError msg)"
      if "b \<notin> blend_types" and "stroke \<noteq> []"
    proof -
      have "zip stroke (iter_distance_from_camera stroke rmin rmax) \<noteq> []"
        using that(2) by (cases stroke) (simp_all add: iter_distance_from_camera_def Let_def)
      with that(1) show ?thesis
        by (simp add: AlphaDistanceFromCameraShader_shade_def shade_alpha_unknown)
    qed
    with made show "\<exists>m. AlphaDistanceFromCameraShader_init b f mapping invert crv rmin rmax = Inr m
        \<and> (b \<notin> blend_types \<and> stroke \<noteq> [] \<longrightarrow>
             (\<exists>msg. AlphaDistanceFromCameraShader_shade m stroke = Inl (ValueError msg)))"
      by blast
  qed
  show "\<exists>m. ThicknessBlenderMixIn_init scene pos r = Inr m
        \<and> (pos \<notin> thickness_positions \<and> sbm_blend self_blend \<in> blend_types \<longrightarrow>
             (\<exists>msg. blend_thickness m self_blend outer inner v = Inl (ValueError msg)))"
  proof -
    let ?m = "\<lparr>persp_camera = (camera_type scene = ''PERSP''), position = pos, ratio = r\<rparr>"
    have made: "ThicknessBlenderMixIn_init scene pos r = Inr ?m"
      by (simp add: ThicknessBlenderMixIn_init_def ThicknessModifierMixIn_init_def)
    have "\<exists>msg. blend_thickness ?m self_blend outer inner v = Inl (ValueError msg)"
      if "pos \<notin> thickness_positions" and "sbm_blend self_blend \<in> blend_types"
    proof -
      from blend_known [OF that(2)] obtain v' where "blend self_blend (outer + inner) v = Inr v'"
        by blast
      with that(1) show ?thesis
        by (simp add: blend_thickness_def thickness_positions_def)
    qed
    with made show ?thesis by blast
  qed
qed

theorem configuration_errors_witness:
  "(\<exists>msg. Transform2DShader_init ''MIDDLE'' 1 1 0 0 0 0 = Inl (ValueError msg))
   \<and> (\<exists>msg. BaseThicknessShader_init \<lparr>camera_type = ''PERSP'', model_view = id\<rparr> 3 ''LEFT'' (1 / 2)
         = Inl (ValueError msg))
   \<and> (\<exists>msg. blend \<lparr>sbm_blend = ''SCREEN'', sbm_influence = 1\<rparr> 1 1 = Inl (ValueError msg))
   \<and> (\<exists>msg. blend_thickness \<lparr>persp_camera = True, position = ''LEFT'', ratio = 1 / 2\<rparr>
          \<lparr>sbm_blend = ''MIX'', sbm_influence = 1\<rparr> 1 1 4 = Inl (ValueError msg))"
  using configuration_errors [where pivot = "''MIDDLE''" and scale_x = 1 and scale_y = 1
      and angle = 0 and pivot_u = 0 and pivot_x = 0 and pivot_y = 0
      and scene = "\<lparr>camera_type = ''PERSP'', model_view = id\<rparr>" and th = 3 and pos = "''LEFT''"
      and r = "1 / 2" and b = "''SCREEN''" and f = 1 and x = 1 and y = 1
      and self_blend = "\<lparr>sbm_blend = ''MIX'', sbm_influence = 1\<rparr>" and outer = 1 and inner = 1
      and v = 4 and ramp = "()" and mapping = "''LINEAR''" and stroke = "[]"]
  by (simp add: thickness_positions_def blend_types_def ScalarBlendModifier_init_def
      ThicknessBlenderMixIn_init_def ThicknessModifierMixIn_init_def)

section \<open>The face mark predicates\<close>

lemma FaceMarkBoth_loop_iff: "FaceMarkBoth_loop N fes = (\<exists>fe \<in> set fes. marked_both N fe)"
  by (induction fes) (auto simp: marked_both_def)

lemma FaceMarkOneUP1D_returns: "\<exists>r. FaceMarkOneUP1D_call N viewedge = Inr r"
  by (simp add: FaceMarkOneUP1D_call_def)

text \<open>
  Claim C9 says that FaceMarkBothUP1D returns True exactly when some fedge of the traversal
  from first_fedge is marked by the both-sides rule, and False otherwise, never raising.
  The method never binds \<^verbatim>\<open>fe\<close> before its loop reads it (its sibling
  FaceMarkOneUP1D does, with \<^verbatim>\<open>fe = inter.first_fedge\<close>), so every call raises.
\<close>

theorem FaceMarkBothUP1D_raises:
  "FaceMarkBothUP1D_call N viewedge = Inl (UnboundLocalError ''fe'')"
  by (simp add: FaceMarkBothUP1D_call_def)

end
